theory Spec2Isabelle
  imports Main "HOL-Library.AList"
begin

section \<open>The SparkPost e-mail backend for Django\<close>

text \<open>
  A shallow embedding of \<^verbatim>\<open>sparkpost/django/email_backend.py\<close>: the class
  \<^verbatim>\<open>SparkPostEmailBackend\<close> with \<^verbatim>\<open>send_messages\<close>, \<^verbatim>\<open>_send\<close> and the three
  static checks. Exceptions are values of a sum type, the remote client is a parameter of
  the backend, and the calls made to it are recorded in a log that every function threads
  through.
\<close>

subsection \<open>Python values and dictionaries\<close>

text \<open>
  The values the backend moves around without looking inside: addresses, subjects,
  bodies, substitution data. A dictionary is an association list in insertion order, read
  with \<open>map_of\<close>; a well-formed one has every key once.
\<close>

datatype pyval =
    PNone
  | PBool bool
  | PInt int
  | PStr string
  | PList "pyval list"
  | PDict "(string \<times> pyval) list"

type_synonym pydict = "(string \<times> pyval) list"

text \<open>Python's truth value of an object, as \<^verbatim>\<open>if x:\<close> tests it.\<close>

fun truthy :: "pyval \<Rightarrow> bool" where
  "truthy PNone = False"
| "truthy (PBool b) = b"
| "truthy (PInt i) = (i \<noteq> 0)"
| "truthy (PStr s) = (s \<noteq> [])"
| "truthy (PList xs) = (xs \<noteq> [])"
| "truthy (PDict d) = (d \<noteq> [])"

text \<open>
  \<^verbatim>\<open>d.update(other)\<close>: every item of \<open>other\<close> is assigned in turn, so a key that
  \<open>d\<close> has keeps its place and a new key goes to the end.
\<close>

definition dict_update :: "pydict \<Rightarrow> pydict \<Rightarrow> pydict" where
  "dict_update d other = fold (\<lambda>(k, v). AList.update k v) other d"

text \<open>\<^verbatim>\<open>k in d\<close> and the truth value of \<^verbatim>\<open>d.get(k)\<close> (\<^verbatim>\<open>None\<close> when the key is missing).\<close>

definition dict_contains :: "string \<Rightarrow> pydict \<Rightarrow> bool" where
  "dict_contains k d = (map_of d k \<noteq> None)"

definition dict_get_truthy :: "pydict \<Rightarrow> string \<Rightarrow> bool" where
  "dict_get_truthy d k = (case map_of d k of None \<Rightarrow> False | Some v \<Rightarrow> truthy v)"

subsection \<open>Messages, responses and exceptions\<close>

text \<open>
  The fields of Django's \<^verbatim>\<open>EmailMessage\<close> that the backend reads. The attributes read
  with \<^verbatim>\<open>getattr(message, name, default)\<close> or guarded by \<^verbatim>\<open>hasattr\<close> may be missing, so
  they are optional: \<open>cc\<close>, \<open>bcc\<close>, \<open>reply_to\<close>, \<open>alternatives\<close> and \<open>sparkpost\<close>. An
  alternative is the pair (content, content type).
\<close>

record email_message =
  subject :: pyval
  body :: pyval
  from_email :: pyval
  to :: pyval
  cc :: "pyval list option"
  bcc :: "pyval list option"
  reply_to :: "pyval list option"
  attachments :: "pyval list"
  alternatives :: "(pyval \<times> string) list option"
  sparkpost :: "pydict option"

text \<open>
  Modelled from the spec: the result of \<^verbatim>\<open>transmissions.send\<close>, which the client library
  (not part of these sources) returns as a mapping with the two integer counts
  \<^verbatim>\<open>total_accepted_recipients\<close> and \<^verbatim>\<open>total_rejected_recipients\<close>.
\<close>

record response =
  total_accepted_recipients :: int
  total_rejected_recipients :: int

text \<open>
  Modelled from the spec: one record of the structured error list that a
  \<^verbatim>\<open>SparkPostAPIException\<close> exposes as \<^verbatim>\<open>e.errors\<close>; the exception class is defined in
  \<^verbatim>\<open>sparkpost.exceptions\<close>, not part of these sources. Each record carries a code, a message
  and a description.
\<close>

record api_error =
  code :: pyval
  msg :: pyval
  description :: pyval

text \<open>
  The exceptions that can leave \<^verbatim>\<open>_send\<close>: the four of \<^verbatim>\<open>sparkpost.django.exceptions\<close>,
  the provider's \<^verbatim>\<open>SparkPostAPIException\<close> with its error list, and any other
  \<^verbatim>\<open>Exception\<close> the client raises. \<open>InvalidStoredTemplate\<close> is constructed from the
  provider error it replaces.
\<close>

datatype exn =
    UnsupportedParam string
  | UnsupportedContent string
  | InvalidStoredTemplate exn
  | InvalidInlineTemplate string
  | SparkPostAPIException "api_error list"
  | OtherException string

text \<open>
  The backend object: the flag of \<^verbatim>\<open>BaseEmailBackend\<close> and the client. The client's
  \<^verbatim>\<open>transmissions.send(**params)\<close> is outside these sources; it is a parameter that maps
  the calls made so far and the keyword arguments of this call to a response or an
  exception, so a client may answer every call differently.
\<close>

record backend =
  fail_silently :: bool
  client :: "pydict list \<Rightarrow> pydict \<Rightarrow> exn + response"

subsection \<open>The static checks\<close>

text \<open>\<^verbatim>\<open>getattr(message, param, [])\<close> for the three names \<^verbatim>\<open>check_unsupported\<close> asks for.\<close>

definition getattr_or_empty :: "email_message \<Rightarrow> string \<Rightarrow> pyval list" where
  "getattr_or_empty message param =
     (case (if param = ''cc'' then cc message
            else if param = ''bcc'' then bcc message
            else if param = ''reply_to'' then reply_to message
            else None)
      of None \<Rightarrow> [] | Some xs \<Rightarrow> xs)"

fun check_unsupported_params :: "email_message \<Rightarrow> string list \<Rightarrow> exn + unit" where
  "check_unsupported_params message [] = Inr ()"
| "check_unsupported_params message (param # rest) =
     (if length (getattr_or_empty message param) \<noteq> 0
      then Inl (UnsupportedParam
        (''The SparkPost Django email backend does not currently support '' @ param @ ''.''))
      else check_unsupported_params message rest)"

definition check_unsupported :: "email_message \<Rightarrow> exn + unit" where
  "check_unsupported message =
     check_unsupported_params message [''cc'', ''bcc'', ''reply_to'']"

definition check_attachments :: "email_message \<Rightarrow> exn + unit" where
  "check_attachments message =
     (if length (attachments message) \<noteq> 0
      then Inl (UnsupportedContent
        ''The SparkPost Django email backend does not currently support attachment.'')
      else Inr ())"

definition check_inline_template :: "pydict \<Rightarrow> exn + unit" where
  "check_inline_template sparkpost_cfg =
     (if dict_contains ''html'' sparkpost_cfg \<noteq> dict_contains ''text'' sparkpost_cfg
      then Inl (InvalidInlineTemplate
        (''Both '' @ [CHR 0x27] @ ''html'' @ [CHR 0x27] @ '' and '' @ [CHR 0x27] @ ''text''
          @ [CHR 0x27] @ '' must be present in '' @ [CHR 0x27] @ ''EmailMessage.sparkpost''
          @ [CHR 0x27]))
      else Inr ())"

subsection \<open>Building the parameters\<close>

text \<open>Lines 41 to 46 of \<^verbatim>\<open>_send\<close>: the base mapping.\<close>

definition base_params :: "email_message \<Rightarrow> pydict" where
  "base_params message =
     [(''recipients'', to message),
      (''from_email'', from_email message),
      (''subject'', subject message),
      (''text'', body message)]"

text \<open>
  Lines 48 to 56: a missing or empty \<^verbatim>\<open>sparkpost\<close> attribute is falsy and skipped;
  otherwise the inline check, then \<^verbatim>\<open>params.pop('text', None)\<close> when the override names
  a template, then \<^verbatim>\<open>params.update(sparkpost_cfg)\<close>.
\<close>

definition apply_sparkpost_cfg :: "pydict option \<Rightarrow> pydict \<Rightarrow> exn + pydict" where
  "apply_sparkpost_cfg sparkpost_cfg params =
     (case sparkpost_cfg of
        None \<Rightarrow> Inr params
      | Some cfg \<Rightarrow>
          if cfg = [] then Inr params
          else (case check_inline_template cfg of
                  Inl e \<Rightarrow> Inl e
                | Inr _ \<Rightarrow>
                    Inr (dict_update
                          (if dict_get_truthy cfg ''template''
                           then AList.delete ''text'' params else params)
                          cfg)))"

text \<open>Lines 59 to 66: the loop over the alternatives.\<close>

fun set_alternatives :: "(pyval \<times> string) list \<Rightarrow> pydict \<Rightarrow> exn + pydict" where
  "set_alternatives [] params = Inr params"
| "set_alternatives (alternative # rest) params =
     (if snd alternative = ''text/html''
      then set_alternatives rest (AList.update ''html'' (fst alternative) params)
      else Inl (UnsupportedContent
        (''Content type '' @ snd alternative @ '' is not supported'')))"

text \<open>Lines 38 to 66 of \<^verbatim>\<open>_send\<close>: everything before the call of the client.\<close>

definition build_params :: "email_message \<Rightarrow> exn + pydict" where
  "build_params message =
     (case check_unsupported message of
        Inl e \<Rightarrow> Inl e
      | Inr _ \<Rightarrow>
     (case check_attachments message of
        Inl e \<Rightarrow> Inl e
      | Inr _ \<Rightarrow>
     (case apply_sparkpost_cfg (sparkpost message) (base_params message) of
        Inl e \<Rightarrow> Inl e
      | Inr params \<Rightarrow>
     (case alternatives message of
        None \<Rightarrow> Inr params
      | Some alts \<Rightarrow>
          if length alts > 0 then set_alternatives alts params else Inr params))))"

subsection \<open>Dispatch\<close>

text \<open>
  Lines 70 to 73: the handler around the call. A provider error with a record of code
  \<^verbatim>\<open>'1603'\<close> is replaced by \<open>InvalidStoredTemplate\<close>; everything else is raised again.
\<close>

fun handle_send_exception :: "exn \<Rightarrow> exn" where
  "handle_send_exception (SparkPostAPIException errors) =
     (if list_ex (\<lambda>err. code err = PStr ''1603'') errors
      then InvalidStoredTemplate (SparkPostAPIException errors)
      else SparkPostAPIException errors)"
| "handle_send_exception e = e"

text \<open>
  \<^verbatim>\<open>_send\<close>: the result or the exception, and the log of calls made to the client, which
  grows by the dispatched parameters exactly when the client is called.
\<close>

definition send_msg ::
  "backend \<Rightarrow> pydict list \<Rightarrow> email_message \<Rightarrow> (exn + response) \<times> pydict list" where
  "send_msg self calls message =
     (case build_params message of
        Inl e \<Rightarrow> (Inl e, calls)
      | Inr params \<Rightarrow>
          ((case client self calls params of
              Inl e \<Rightarrow> Inl (handle_send_exception e)
            | Inr resp \<Rightarrow> Inr resp),
           calls @ [params]))"

text \<open>
  \<^verbatim>\<open>send_messages\<close>: the loop with its counter \<^verbatim>\<open>success\<close>. An exception leaves the loop
  unless the backend fails silently.
\<close>

fun send_loop ::
  "backend \<Rightarrow> email_message list \<Rightarrow> int \<Rightarrow> pydict list \<Rightarrow> (exn + int) \<times> pydict list" where
  "send_loop self [] success calls = (Inr success, calls)"
| "send_loop self (message # rest) success calls =
     (case send_msg self calls message of
        (Inr resp, calls') \<Rightarrow>
          send_loop self rest (success + total_accepted_recipients resp) calls'
      | (Inl e, calls') \<Rightarrow>
          if \<not> fail_silently self then (Inl e, calls')
          else send_loop self rest success calls')"

definition send_messages ::
  "backend \<Rightarrow> pydict list \<Rightarrow> email_message list \<Rightarrow> (exn + int) \<times> pydict list" where
  "send_messages self calls email_messages = send_loop self email_messages 0 calls"

subsection \<open>Observing a batch\<close>

text \<open>
  What \<^verbatim>\<open>_send\<close> does on each message of a batch in turn, every message starting from
  the log the previous one left: the list of outcomes and the final log. The accepted
  count of an outcome is the response's count, and zero for an exception.
\<close>

fun send_each ::
  "backend \<Rightarrow> pydict list \<Rightarrow> email_message list \<Rightarrow> (exn + response) list \<times> pydict list" where
  "send_each self calls [] = ([], calls)"
| "send_each self calls (message # rest) =
     (case send_msg self calls message of
        (r, calls') \<Rightarrow>
          (case send_each self calls' rest of (rs, calls'') \<Rightarrow> (r # rs, calls'')))"

definition accepted :: "exn + response \<Rightarrow> int" where
  "accepted r = (case r of Inl e \<Rightarrow> 0 | Inr resp \<Rightarrow> total_accepted_recipients resp)"

subsection \<open>Example messages and clients\<close>

text \<open>The message and the responses of the test suite.\<close>

definition example_message :: email_message where
  "example_message =
     \<lparr>subject = PStr ''test subject'', body = PStr ''test body'',
      from_email = PStr ''from@example.com'', to = PList [PStr ''to@example.com''],
      cc = Some [], bcc = Some [], reply_to = Some [], attachments = [],
      alternatives = None, sparkpost = None\<rparr>"

text \<open>A client that accepts one recipient on its first call and ten on every later one.\<close>

definition accepting_client :: "pydict list \<Rightarrow> pydict \<Rightarrow> exn + response" where
  "accepting_client calls params =
     Inr \<lparr>total_accepted_recipients = (if calls = [] then 1 else 10),
          total_rejected_recipients = 2\<rparr>"

text \<open>A client whose second call raises, and that accepts one recipient otherwise.\<close>

definition second_call_raises :: "pydict list \<Rightarrow> pydict \<Rightarrow> exn + response" where
  "second_call_raises calls params =
     (if length calls = 1 then Inl (OtherException ''i should be raised'')
      else Inr \<lparr>total_accepted_recipients = 1, total_rejected_recipients = 0\<rparr>)"

text \<open>Clients that answer with a provider error: template not found, and another code.\<close>

definition template_missing_client :: "pydict list \<Rightarrow> pydict \<Rightarrow> exn + response" where
  "template_missing_client calls params =
     Inl (SparkPostAPIException
       [\<lparr>code = PStr ''1603'', msg = PStr ''Subresource not found'',
         description = PStr ''template does not exist''\<rparr>])"

definition other_code_client :: "pydict list \<Rightarrow> pydict \<Rightarrow> exn + response" where
  "other_code_client calls params =
     Inl (SparkPostAPIException
       [\<lparr>code = PStr ''1902'', msg = PStr ''Delivery failed'',
         description = PStr ''transmission rejected''\<rparr>])"

definition example_backend :: backend where
  "example_backend = \<lparr>fail_silently = False, client = accepting_client\<rparr>"

definition cc_and_attachment_message :: email_message where
  "cc_and_attachment_message =
     example_message\<lparr>cc := Some [PStr ''cc1@example.com'', PStr ''cc2@example.com''],
                     attachments := [PStr ''file.txt'']\<rparr>"

definition attachment_message :: email_message where
  "attachment_message = example_message\<lparr>attachments := [PStr ''file.txt'']\<rparr>"

definition two_html_message :: email_message where
  "two_html_message =
     example_message\<lparr>alternatives :=
       Some [(PStr ''<p>one</p>'', ''text/html''), (PStr ''<p>two</p>'', ''text/html'')]\<rparr>"

definition three_html_message :: email_message where
  "three_html_message =
     example_message\<lparr>alternatives :=
       Some [(PStr ''<p>one</p>'', ''text/html''), (PStr ''<p>two</p>'', ''text/html''),
             (PStr ''<p>three</p>'', ''text/html'')]\<rparr>"

definition alien_message :: email_message where
  "alien_message =
     example_message\<lparr>alternatives :=
       Some [(PStr ''<ppp>non-plain content</ppp>'', ''text/alien'')]\<rparr>"

definition inline_cfg :: pydict where
  "inline_cfg =
     [(''html'', PStr ''<p>template content</>''), (''text'', PStr ''template content''),
      (''substitution_data'', PDict [(''global_var'', PStr ''value'')])]"

definition text_only_cfg :: pydict where
  "text_only_cfg =
     [(''text'', PStr ''template content''),
      (''substitution_data'', PDict [(''global_var'', PStr ''value'')])]"

definition stored_and_inline_cfg :: pydict where
  "stored_and_inline_cfg =
     [(''template'', PStr ''stored_template''), (''html'', PStr ''<p>template content</>''),
      (''text'', PStr ''template content'')]"

definition cc_text_only_message :: email_message where
  "cc_text_only_message =
     example_message\<lparr>cc := Some [PStr ''cc1@example.com''], sparkpost := Some text_only_cfg\<rparr>"

definition override_html_message :: email_message where
  "override_html_message =
     example_message\<lparr>alternatives := Some [(PStr ''<p>Hello There</p>'', ''text/html'')],
                     sparkpost := Some inline_cfg\<rparr>"

definition stored_template_message :: email_message where
  "stored_template_message = example_message\<lparr>sparkpost := Some [(''template'', PStr ''t'')]\<rparr>"

definition stored_and_inline_message :: email_message where
  "stored_and_inline_message = example_message\<lparr>sparkpost := Some stored_and_inline_cfg\<rparr>"

definition text_only_message :: email_message where
  "text_only_message = example_message\<lparr>sparkpost := Some text_only_cfg\<rparr>"

definition inline_message :: email_message where
  "inline_message = example_message\<lparr>sparkpost := Some inline_cfg\<rparr>"

definition template_missing_backend :: backend where
  "template_missing_backend = \<lparr>fail_silently = False, client = template_missing_client\<rparr>"

definition other_code_backend :: backend where
  "other_code_backend = \<lparr>fail_silently = False, client = other_code_client\<rparr>"

definition silent_backend :: backend where
  "silent_backend = \<lparr>fail_silently = True, client = second_call_raises\<rparr>"

definition loud_backend :: backend where
  "loud_backend = \<lparr>fail_silently = False, client = second_call_raises\<rparr>"

section \<open>Properties\<close>

subsection \<open>Auxiliary facts\<close>

lemma check_unsupported_eq:
  "check_unsupported m =
     (if getattr_or_empty m ''cc'' \<noteq> []
      then Inl (UnsupportedParam
        (''The SparkPost Django email backend does not currently support '' @ ''cc'' @ ''.''))
      else if getattr_or_empty m ''bcc'' \<noteq> []
      then Inl (UnsupportedParam
        (''The SparkPost Django email backend does not currently support '' @ ''bcc'' @ ''.''))
      else if getattr_or_empty m ''reply_to'' \<noteq> []
      then Inl (UnsupportedParam
        (''The SparkPost Django email backend does not currently support '' @ ''reply_to''
          @ ''.''))
      else Inr ())"
  by (simp add: check_unsupported_def)

lemma send_msg_build_error:
  "build_params m = Inl e \<Longrightarrow> send_msg self calls m = (Inl e, calls)"
  by (simp add: send_msg_def)

lemma send_msg_log:
  "snd (send_msg self calls m) = calls @ [p] \<longleftrightarrow> build_params m = Inr p"
  by (auto simp: send_msg_def split: sum.splits)


lemma set_alternatives_other_keys:
  "set_alternatives alts q = Inr p \<Longrightarrow> k \<noteq> ''html'' \<Longrightarrow> map_of p k = map_of q k"
  by (induction alts arbitrary: q) (auto simp: AList.update_conv' split: if_splits)

lemma set_alternatives_non_html:
  "\<exists>a \<in> set alts. snd a \<noteq> ''text/html'' \<Longrightarrow>
   \<exists>s. set_alternatives alts q = Inl (UnsupportedContent s)"
  by (induction alts arbitrary: q) auto

lemma set_alternatives_all_html:
  "\<forall>a \<in> set alts. snd a = ''text/html'' \<Longrightarrow>
   \<exists>p. set_alternatives alts q = Inr p \<and>
       (alts = [] \<longrightarrow> p = q) \<and>
       (alts \<noteq> [] \<longrightarrow> map_of p ''html'' = Some (fst (last alts)))"
proof (induction alts arbitrary: q)
  case Nil
  then show ?case by simp
next
  case (Cons a alts)
  from Cons.prems have a: "snd a = ''text/html''"
    and rest: "\<forall>a \<in> set alts. snd a = ''text/html''"
    by auto
  from Cons.IH [OF rest, of "AList.update ''html'' (fst a) q"] obtain p where
    p: "set_alternatives alts (AList.update ''html'' (fst a) q) = Inr p"
    and first: "alts = [] \<longrightarrow> p = AList.update ''html'' (fst a) q"
    and later: "alts \<noteq> [] \<longrightarrow> map_of p ''html'' = Some (fst (last alts))"
    by blast
  from a p have "set_alternatives (a # alts) q = Inr p" by simp
  moreover have "map_of p ''html'' = Some (fst (last (a # alts)))"
    using first later by (cases "alts = []") (simp_all add: AList.update_conv')
  ultimately show ?case by simp
qed

lemma set_alternatives_not_inline:
  "set_alternatives alts q \<noteq> Inl (InvalidInlineTemplate s)"
  by (induction alts arbitrary: q) auto

lemma build_params_Inr:
  "build_params m = Inr p \<Longrightarrow>
   \<exists>q. apply_sparkpost_cfg (sparkpost m) (base_params m) = Inr q \<and>
       (case alternatives m of None \<Rightarrow> p = q | Some alts \<Rightarrow> set_alternatives alts q = Inr p)"
  by (auto simp: build_params_def split: sum.splits option.splits if_splits)

lemma apply_sparkpost_cfg_Inr:
  "apply_sparkpost_cfg (Some cfg) params = Inr q \<Longrightarrow> cfg \<noteq> [] \<Longrightarrow>
   q = dict_update (if dict_get_truthy cfg ''template'' then AList.delete ''text'' params
                    else params) cfg"
  by (auto simp: apply_sparkpost_cfg_def split: sum.splits if_splits)

lemma map_of_dict_update:
  "distinct (map fst other) \<Longrightarrow> map_of (dict_update d other) = map_of d ++ map_of other"
proof (induction other arbitrary: d)
  case Nil
  then show ?case by (simp add: dict_update_def)
next
  case (Cons x other)
  obtain k v where x: "x = (k, v)" by (cases x)
  from Cons.prems x have k: "k \<notin> fst ` set other" and d: "distinct (map fst other)"
    by auto
  from k have none: "map_of other k = None" by (simp add: map_of_eq_None_iff)
  have "dict_update d (x # other) = dict_update (AList.update k v d) other"
    by (simp add: dict_update_def x)
  then have "map_of (dict_update d (x # other)) = (map_of d)(k \<mapsto> v) ++ map_of other"
    by (simp only: Cons.IH [OF d] AList.update_conv')
  also have "\<dots> = map_of d ++ map_of (x # other)"
    using none by (auto simp: x map_add_def fun_eq_iff split: option.splits)
  finally show ?case .
qed

lemma dict_contains_nonempty: "dict_contains k d \<Longrightarrow> d \<noteq> []"
  by (auto simp: dict_contains_def)

lemma length_send_each: "length (fst (send_each self calls msgs)) = length msgs"
  by (induction msgs arbitrary: calls) (auto split: prod.splits, metis fst_conv)

lemma send_loop_silent:
  "fail_silently self \<Longrightarrow>
   send_loop self msgs acc calls =
     (Inr (acc + sum_list (map accepted (fst (send_each self calls msgs)))),
      snd (send_each self calls msgs))"
  by (induction msgs arbitrary: acc calls)
     (auto simp: accepted_def split: prod.splits sum.splits)



lemma send_loop_first_error:
  "\<not> fail_silently self \<Longrightarrow> send_each self calls pre = (rs, calls1) \<Longrightarrow>
   \<forall>r \<in> set rs. \<not> isl r \<Longrightarrow> send_msg self calls1 m = (Inl e, calls2) \<Longrightarrow>
   send_loop self (pre @ m # post) acc calls = (Inl e, calls2)"
  by (induction pre arbitrary: acc calls rs)
     (auto split: prod.splits sum.splits)

lemmas backend_defs =
  send_msg_def build_params_def check_unsupported_def check_attachments_def
  check_inline_template_def apply_sparkpost_cfg_def base_params_def getattr_or_empty_def
  dict_contains_def dict_get_truthy_def dict_update_def

subsection \<open>Validation\<close>

text \<open>
  C8: a message with a non-empty cc, bcc or reply-to list fails with \<open>UnsupportedParam\<close>
  and the client is not called. The three are looked at in the order cc, bcc, reply-to and
  the first non-empty one is named in the error. Nothing is assumed of the attachments: the
  check runs before the attachment check, so a message with a cc list and attachments
  fails with \<open>UnsupportedParam\<close> too.
\<close>

theorem unsupported_param_first:
  assumes "getattr_or_empty message ''cc'' \<noteq> [] \<or> getattr_or_empty message ''bcc'' \<noteq> []
           \<or> getattr_or_empty message ''reply_to'' \<noteq> []"
  shows "send_msg self calls message =
     (Inl (UnsupportedParam
        (''The SparkPost Django email backend does not currently support ''
          @ (if getattr_or_empty message ''cc'' \<noteq> [] then ''cc''
             else if getattr_or_empty message ''bcc'' \<noteq> [] then ''bcc''
             else ''reply_to'')
          @ ''.'')),
      calls)"
proof -
  have "build_params message =
     Inl (UnsupportedParam
        (''The SparkPost Django email backend does not currently support ''
          @ (if getattr_or_empty message ''cc'' \<noteq> [] then ''cc''
             else if getattr_or_empty message ''bcc'' \<noteq> [] then ''bcc''
             else ''reply_to'')
          @ ''.''))"
    using assms by (auto simp: build_params_def check_unsupported_eq)
  then show ?thesis by (rule send_msg_build_error)
qed

theorem unsupported_param_first_witness:
  "getattr_or_empty cc_and_attachment_message ''cc'' \<noteq> [] \<and>
   attachments cc_and_attachment_message \<noteq> [] \<and>
   send_msg example_backend [] cc_and_attachment_message =
     (Inl (UnsupportedParam
        ''The SparkPost Django email backend does not currently support cc.''), [])"
  using unsupported_param_first [of cc_and_attachment_message example_backend "[]"]
  by (simp add: cc_and_attachment_message_def example_message_def getattr_or_empty_def)

text \<open>
  C9: a message with one or more attachments and empty cc, bcc and reply-to lists fails
  with \<open>UnsupportedContent\<close> and the client is not called.
\<close>

theorem attachments_unsupported:
  assumes "attachments message \<noteq> []"
    and "getattr_or_empty message ''cc'' = []"
    and "getattr_or_empty message ''bcc'' = []"
    and "getattr_or_empty message ''reply_to'' = []"
  shows "send_msg self calls message =
     (Inl (UnsupportedContent
        ''The SparkPost Django email backend does not currently support attachment.''),
      calls)"
proof -
  have "build_params message = Inl (UnsupportedContent
        ''The SparkPost Django email backend does not currently support attachment.'')"
    using assms by (simp add: build_params_def check_unsupported_eq check_attachments_def)
  then show ?thesis by (rule send_msg_build_error)
qed

theorem attachments_unsupported_witness:
  "attachments attachment_message \<noteq> [] \<and>
   send_msg example_backend [] attachment_message =
     (Inl (UnsupportedContent
        ''The SparkPost Django email backend does not currently support attachment.''), [])"
  using attachments_unsupported [of attachment_message example_backend "[]"]
  by (simp add: attachment_message_def example_message_def getattr_or_empty_def)

text \<open>
  C5, as the code has it: for a message with empty cc, bcc and reply-to lists and no
  attachments whose override supplies exactly one of the keys html and text, \<^verbatim>\<open>_send\<close>
  fails with \<open>InvalidInlineTemplate\<close> and the client is not called; an override with both
  keys, or with neither, passes \<^verbatim>\<open>check_inline_template\<close>, and building the parameters
  does not fail with \<open>InvalidInlineTemplate\<close>.
\<close>

theorem inline_template_checked:
  assumes "sparkpost message = Some cfg"
  shows "(dict_contains ''html'' cfg \<noteq> dict_contains ''text'' cfg \<longrightarrow>
          getattr_or_empty message ''cc'' = [] \<and> getattr_or_empty message ''bcc'' = [] \<and>
          getattr_or_empty message ''reply_to'' = [] \<and> attachments message = [] \<longrightarrow>
          (\<exists>s. send_msg self calls message = (Inl (InvalidInlineTemplate s), calls)))
       \<and> (dict_contains ''html'' cfg = dict_contains ''text'' cfg \<longrightarrow>
          check_inline_template cfg = Inr () \<and>
          (\<forall>s. build_params message \<noteq> Inl (InvalidInlineTemplate s)))"
proof (intro conjI impI)
  assume x: "dict_contains ''html'' cfg \<noteq> dict_contains ''text'' cfg"
    and ok: "getattr_or_empty message ''cc'' = [] \<and> getattr_or_empty message ''bcc'' = [] \<and>
          getattr_or_empty message ''reply_to'' = [] \<and> attachments message = []"
  from x have "cfg \<noteq> []" by (auto simp: dict_contains_def)
  with x ok assms have "\<exists>s. build_params message = Inl (InvalidInlineTemplate s)"
    by (simp add: build_params_def check_unsupported_eq check_attachments_def
        apply_sparkpost_cfg_def check_inline_template_def)
  then show "\<exists>s. send_msg self calls message = (Inl (InvalidInlineTemplate s), calls)"
    by (auto simp: send_msg_build_error)
next
  assume "dict_contains ''html'' cfg = dict_contains ''text'' cfg"
  then show "check_inline_template cfg = Inr ()"
    by (simp add: check_inline_template_def)
next
  assume "dict_contains ''html'' cfg = dict_contains ''text'' cfg"
  with assms show "\<forall>s. build_params message \<noteq> Inl (InvalidInlineTemplate s)"
    by (auto simp: build_params_def check_unsupported_eq check_attachments_def
        apply_sparkpost_cfg_def check_inline_template_def set_alternatives_not_inline
        split: option.splits)
qed

theorem inline_template_checked_witness:
  "(\<exists>s. send_msg example_backend [] text_only_message = (Inl (InvalidInlineTemplate s), []))
   \<and> check_inline_template inline_cfg = Inr ()
   \<and> (\<forall>s. build_params inline_message \<noteq> Inl (InvalidInlineTemplate s))"
  using inline_template_checked [of text_only_message text_only_cfg example_backend "[]"]
    inline_template_checked [of inline_message inline_cfg example_backend "[]"]
  by (simp add: text_only_message_def inline_message_def example_message_def
      text_only_cfg_def inline_cfg_def getattr_or_empty_def dict_contains_def)

text \<open>
  C5, as the claim states it, fails: a message whose override supplies only the text key
  and that also has a cc address fails with \<open>UnsupportedParam\<close>, not with
  \<open>InvalidInlineTemplate\<close>, since \<^verbatim>\<open>check_unsupported\<close> runs first.
\<close>

theorem inline_template_counterexample:
  "sparkpost cc_text_only_message = Some text_only_cfg \<and>
   dict_contains ''text'' text_only_cfg \<and> \<not> dict_contains ''html'' text_only_cfg \<and>
   send_msg example_backend [] cc_text_only_message =
     (Inl (UnsupportedParam
        ''The SparkPost Django email backend does not currently support cc.''), [])"
  by (simp add: cc_text_only_message_def example_message_def text_only_cfg_def
      backend_defs)

text \<open>
  C7, as the code has it: take a message with empty cc, bcc and reply-to lists whose
  override (if any) passes the inline check. If it declares an alternative part whose
  content type is not \<^verbatim>\<open>text/html\<close>, \<^verbatim>\<open>_send\<close> fails with \<open>UnsupportedContent\<close> and the
  client is not called. The number of alternative parts is never looked at: if the message
  has no attachments and one or more alternative parts, all of type \<^verbatim>\<open>text/html\<close>, the
  parts are assigned in turn, the client is called once, and the html it is given is the
  content of the last part.
\<close>

theorem alternatives_checked_by_type:
  assumes "getattr_or_empty message ''cc'' = []"
    and "getattr_or_empty message ''bcc'' = []"
    and "getattr_or_empty message ''reply_to'' = []"
    and "\<forall>cfg. sparkpost message = Some cfg \<longrightarrow> check_inline_template cfg = Inr ()"
    and "alternatives message = Some alts"
  shows "((\<exists>a \<in> set alts. snd a \<noteq> ''text/html'') \<longrightarrow>
          (\<exists>s. send_msg self calls message = (Inl (UnsupportedContent s), calls)))
       \<and> (alts \<noteq> [] \<and> (\<forall>a \<in> set alts. snd a = ''text/html'') \<and> attachments message = [] \<longrightarrow>
          (\<exists>params.
             send_msg self calls message =
               ((case client self calls params of
                   Inl e \<Rightarrow> Inl (handle_send_exception e)
                 | Inr resp \<Rightarrow> Inr resp),
                calls @ [params]) \<and>
             map_of params ''html'' = Some (fst (last alts))))"
proof (intro conjI impI)
  have "\<exists>q. apply_sparkpost_cfg (sparkpost message) (base_params message) = Inr q"
    using assms(4) by (cases "sparkpost message") (auto simp: apply_sparkpost_cfg_def)
  then obtain q where
    q: "apply_sparkpost_cfg (sparkpost message) (base_params message) = Inr q" ..
  {
    assume bad: "\<exists>a \<in> set alts. snd a \<noteq> ''text/html''"
    then have ne: "alts \<noteq> []" by auto
    from set_alternatives_non_html [OF bad] obtain s where
      "set_alternatives alts q = Inl (UnsupportedContent s)" by blast
    with assms(1-3,5) ne q have "\<exists>s. build_params message = Inl (UnsupportedContent s)"
      by (simp add: build_params_def check_unsupported_eq check_attachments_def)
    then show "\<exists>s. send_msg self calls message = (Inl (UnsupportedContent s), calls)"
      by (auto simp: send_msg_build_error)
  }
  {
    assume good: "alts \<noteq> [] \<and> (\<forall>a \<in> set alts. snd a = ''text/html'') \<and>
      attachments message = []"
    then have ne: "alts \<noteq> []" and html: "\<forall>a \<in> set alts. snd a = ''text/html''"
      and att: "attachments message = []"
      by simp_all
    from set_alternatives_all_html [OF html, of q] ne obtain p where
      p: "set_alternatives alts q = Inr p"
      and last: "map_of p ''html'' = Some (fst (last alts))"
      by blast
    from assms(1-3,5) ne att q p have "build_params message = Inr p"
      by (simp add: build_params_def check_unsupported_eq check_attachments_def)
    then have "send_msg self calls message =
        ((case client self calls p of
            Inl e \<Rightarrow> Inl (handle_send_exception e)
          | Inr resp \<Rightarrow> Inr resp),
         calls @ [p])"
      by (simp add: send_msg_def)
    with last show "\<exists>params.
             send_msg self calls message =
               ((case client self calls params of
                   Inl e \<Rightarrow> Inl (handle_send_exception e)
                 | Inr resp \<Rightarrow> Inr resp),
                calls @ [params]) \<and>
             map_of params ''html'' = Some (fst (last alts))"
      by blast
  }
qed

theorem alternatives_checked_by_type_witness:
  "alternatives alien_message = Some [(PStr ''<ppp>non-plain content</ppp>'', ''text/alien'')]
   \<and> (\<exists>s. send_msg example_backend [] alien_message = (Inl (UnsupportedContent s), []))
   \<and> alternatives three_html_message =
       Some [(PStr ''<p>one</p>'', ''text/html''), (PStr ''<p>two</p>'', ''text/html''),
             (PStr ''<p>three</p>'', ''text/html'')]
   \<and> (\<exists>params.
         send_msg example_backend [] three_html_message =
           (Inr \<lparr>total_accepted_recipients = 1, total_rejected_recipients = 2\<rparr>, [params]) \<and>
         map_of params ''html'' = Some (PStr ''<p>three</p>''))"
  using alternatives_checked_by_type
    [of alien_message "[(PStr ''<ppp>non-plain content</ppp>'', ''text/alien'')]"
        example_backend "[]"]
    alternatives_checked_by_type
    [of three_html_message
        "[(PStr ''<p>one</p>'', ''text/html''), (PStr ''<p>two</p>'', ''text/html''),
          (PStr ''<p>three</p>'', ''text/html'')]"
        example_backend "[]"]
  by (simp add: alien_message_def three_html_message_def example_message_def
      getattr_or_empty_def example_backend_def accepting_client_def)

text \<open>
  C7, as the claim states it, fails: a message with two alternative parts, both of type
  \<^verbatim>\<open>text/html\<close>, is not rejected. The client is called once, with the content of the last
  part under the html key, and its response is returned.
\<close>

theorem two_html_alternatives_counterexample:
  "alternatives two_html_message =
     Some [(PStr ''<p>one</p>'', ''text/html''), (PStr ''<p>two</p>'', ''text/html'')] \<and>
   send_msg example_backend [] two_html_message =
     (Inr \<lparr>total_accepted_recipients = 1, total_rejected_recipients = 2\<rparr>,
      [[(''recipients'', PList [PStr ''to@example.com'']),
        (''from_email'', PStr ''from@example.com''),
        (''subject'', PStr ''test subject''),
        (''text'', PStr ''test body''),
        (''html'', PStr ''<p>two</p>'')]])"
  by (simp add: two_html_message_def example_message_def example_backend_def
      accepting_client_def backend_defs)

subsection \<open>Parameter construction\<close>

text \<open>
  C3: the override is merged first and the alternative part is assigned last. For a
  message with exactly one alternative part, of type \<^verbatim>\<open>text/html\<close>, and an override that
  supplies an html key, the parameters dispatched to the client carry the alternative
  part's content under html, and (the override being a well-formed dictionary) every
  other key of the override with the override's value.
\<close>

theorem alternative_html_after_override:
  assumes alt: "alternatives message = Some [(content, ''text/html'')]"
    and cfg: "sparkpost message = Some cfg"
    and html: "dict_contains ''html'' cfg"
    and sent: "snd (send_msg self calls message) = calls @ [params]"
  shows "map_of params ''html'' = Some content \<and>
         (distinct (map fst cfg) \<longrightarrow>
          (\<forall>k. k \<noteq> ''html'' \<longrightarrow> dict_contains k cfg \<longrightarrow> map_of params k = map_of cfg k))"
proof -
  from sent have "build_params message = Inr params" by (simp add: send_msg_log)
  from build_params_Inr [OF this] alt cfg obtain q where
    q: "apply_sparkpost_cfg (Some cfg) (base_params message) = Inr q"
    and p: "set_alternatives [(content, ''text/html'')] q = Inr params"
    by auto
  from p have params: "params = AList.update ''html'' content q" by simp
  from html have "cfg \<noteq> []" by (rule dict_contains_nonempty)
  from apply_sparkpost_cfg_Inr [OF q this] have
    "distinct (map fst cfg) \<Longrightarrow>
     map_of q = map_of (if dict_get_truthy cfg ''template''
        then AList.delete ''text'' (base_params message) else base_params message) ++ map_of cfg"
    by (simp only: map_of_dict_update)
  then have "distinct (map fst cfg) \<Longrightarrow> \<forall>k. dict_contains k cfg \<longrightarrow> map_of q k = map_of cfg k"
    by (auto simp: dict_contains_def map_add_def split: option.splits)
  with params show ?thesis by (simp add: AList.update_conv')
qed

theorem alternative_html_after_override_witness:
  "map_of inline_cfg ''html'' = Some (PStr ''<p>template content</>'') \<and>
   snd (send_msg example_backend [] override_html_message) =
     [] @ [[(''recipients'', PList [PStr ''to@example.com'']),
            (''from_email'', PStr ''from@example.com''),
            (''subject'', PStr ''test subject''),
            (''text'', PStr ''template content''),
            (''html'', PStr ''<p>Hello There</p>''),
            (''substitution_data'', PDict [(''global_var'', PStr ''value'')])]] \<and>
   map_of [(''recipients'', PList [PStr ''to@example.com'']),
           (''from_email'', PStr ''from@example.com''),
           (''subject'', PStr ''test subject''),
           (''text'', PStr ''template content''),
           (''html'', PStr ''<p>Hello There</p>''),
           (''substitution_data'', PDict [(''global_var'', PStr ''value'')])] ''html''
     = Some (PStr ''<p>Hello There</p>'')"
  using alternative_html_after_override
    [of override_html_message "PStr ''<p>Hello There</p>''" inline_cfg example_backend "[]"
        "[(''recipients'', PList [PStr ''to@example.com'']),
          (''from_email'', PStr ''from@example.com''),
          (''subject'', PStr ''test subject''),
          (''text'', PStr ''template content''),
          (''html'', PStr ''<p>Hello There</p>''),
          (''substitution_data'', PDict [(''global_var'', PStr ''value'')])]"]
  by (simp add: override_html_message_def example_message_def inline_cfg_def
      example_backend_def accepting_client_def backend_defs)

text \<open>
  C6: for a message whose override is exactly \<^verbatim>\<open>{template: t}\<close>, with \<open>t\<close> a
  stored-template reference (a value Python takes as true, such as the string \<^verbatim>\<open>"t"\<close>),
  the parameters dispatched to the client have no text key.
\<close>

theorem stored_template_drops_text:
  assumes cfg: "sparkpost message = Some [(''template'', t)]"
    and t: "truthy t"
    and sent: "snd (send_msg self calls message) = calls @ [params]"
  shows "\<not> dict_contains ''text'' params"
proof -
  from sent have "build_params message = Inr params" by (simp add: send_msg_log)
  from build_params_Inr [OF this] cfg obtain q where
    q: "apply_sparkpost_cfg (Some [(''template'', t)]) (base_params message) = Inr q"
    and p: "case alternatives message of None \<Rightarrow> params = q
            | Some alts \<Rightarrow> set_alternatives alts q = Inr params"
    by auto
  from apply_sparkpost_cfg_Inr [OF q] t have
    "q = dict_update (AList.delete ''text'' (base_params message)) [(''template'', t)]"
    by (simp add: dict_get_truthy_def)
  then have "map_of q ''text'' = None"
    by (simp add: dict_update_def AList.update_conv' AList.delete_conv')
  moreover from p have "map_of params ''text'' = map_of q ''text''"
    using set_alternatives_other_keys [of _ q params "''text''"]
    by (auto split: option.splits)
  ultimately show ?thesis by (simp add: dict_contains_def)
qed

theorem stored_template_drops_text_witness:
  "truthy (PStr ''t'') \<and>
   snd (send_msg example_backend [] stored_template_message) =
     [] @ [[(''recipients'', PList [PStr ''to@example.com'']),
            (''from_email'', PStr ''from@example.com''),
            (''subject'', PStr ''test subject''),
            (''template'', PStr ''t'')]] \<and>
   \<not> dict_contains ''text''
       [(''recipients'', PList [PStr ''to@example.com'']),
        (''from_email'', PStr ''from@example.com''),
        (''subject'', PStr ''test subject''),
        (''template'', PStr ''t'')]"
  using stored_template_drops_text
    [of stored_template_message "PStr ''t''" example_backend "[]"
        "[(''recipients'', PList [PStr ''to@example.com'']),
          (''from_email'', PStr ''from@example.com''),
          (''subject'', PStr ''test subject''),
          (''template'', PStr ''t'')]"]
  by (simp add: stored_template_message_def example_message_def
      example_backend_def accepting_client_def backend_defs)

text \<open>
  C10: for a message whose override (a well-formed dictionary) has a stored-template key with a value Python takes
  as true and a text key, the parameters dispatched to the client have a text key, with
  the override's text value: the base text is dropped before the override is merged, and
  the merge puts the override's own text back. That the override also has an html key
  follows from the dispatch, which only happens when the inline check passes.
\<close>

theorem override_text_survives_template:
  assumes cfg: "sparkpost message = Some cfg"
    and wf: "distinct (map fst cfg)"
    and template: "dict_get_truthy cfg ''template''"
    and ovr: "map_of cfg ''text'' = Some txt"
    and sent: "snd (send_msg self calls message) = calls @ [params]"
  shows "map_of params ''text'' = Some txt \<and> dict_contains ''html'' cfg"
proof -
  from sent have b: "build_params message = Inr params" by (simp add: send_msg_log)
  from build_params_Inr [OF this] cfg obtain q where
    q: "apply_sparkpost_cfg (Some cfg) (base_params message) = Inr q"
    and p: "case alternatives message of None \<Rightarrow> params = q
            | Some alts \<Rightarrow> set_alternatives alts q = Inr params"
    by auto
  from ovr have ne: "cfg \<noteq> []" by auto
  from apply_sparkpost_cfg_Inr [OF q this] template have
    "q = dict_update (AList.delete ''text'' (base_params message)) cfg"
    by simp
  with ovr wf have "map_of q ''text'' = Some txt"
    by (simp add: map_of_dict_update)
  moreover from p have "map_of params ''text'' = map_of q ''text''"
    using set_alternatives_other_keys [of _ q params "''text''"]
    by (auto split: option.splits)
  moreover from q ne ovr have "dict_contains ''html'' cfg"
    by (auto simp: apply_sparkpost_cfg_def check_inline_template_def dict_contains_def
        split: if_splits)
  ultimately show ?thesis by simp
qed

theorem override_text_survives_template_witness:
  "distinct (map fst stored_and_inline_cfg) \<and>
   dict_get_truthy stored_and_inline_cfg ''template'' \<and>
   map_of stored_and_inline_cfg ''text'' = Some (PStr ''template content'') \<and>
   snd (send_msg example_backend [] stored_and_inline_message) =
     [] @ [[(''recipients'', PList [PStr ''to@example.com'']),
            (''from_email'', PStr ''from@example.com''),
            (''subject'', PStr ''test subject''),
            (''template'', PStr ''stored_template''),
            (''html'', PStr ''<p>template content</>''),
            (''text'', PStr ''template content'')]] \<and>
   map_of [(''recipients'', PList [PStr ''to@example.com'']),
           (''from_email'', PStr ''from@example.com''),
           (''subject'', PStr ''test subject''),
           (''template'', PStr ''stored_template''),
           (''html'', PStr ''<p>template content</>''),
           (''text'', PStr ''template content'')] ''text''
     = Some (PStr ''template content'')"
  using override_text_survives_template
    [of stored_and_inline_message stored_and_inline_cfg "PStr ''template content''"
        example_backend "[]"
        "[(''recipients'', PList [PStr ''to@example.com'']),
          (''from_email'', PStr ''from@example.com''),
          (''subject'', PStr ''test subject''),
          (''template'', PStr ''stored_template''),
          (''html'', PStr ''<p>template content</>''),
          (''text'', PStr ''template content'')]"]
  by (simp add: stored_and_inline_message_def example_message_def stored_and_inline_cfg_def
      example_backend_def accepting_client_def backend_defs)

subsection \<open>Provider errors\<close>

text \<open>
  C4: when the client is called and raises a provider error, \<^verbatim>\<open>_send\<close> fails with
  \<open>InvalidStoredTemplate\<close> built from that error if its error list has a record of code
  \<^verbatim>\<open>"1603"\<close>, and with the provider error itself, unchanged, if it has none.
\<close>

theorem stored_template_error:
  assumes "build_params message = Inr params"
    and "client self calls params = Inl (SparkPostAPIException errors)"
  shows "send_msg self calls message =
     (Inl (if \<exists>err \<in> set errors. code err = PStr ''1603''
           then InvalidStoredTemplate (SparkPostAPIException errors)
           else SparkPostAPIException errors),
      calls @ [params])"
  using assms by (simp add: send_msg_def list_ex_iff)

theorem stored_template_error_witness:
  "send_msg template_missing_backend [] example_message =
     (Inl (InvalidStoredTemplate (SparkPostAPIException
        [\<lparr>code = PStr ''1603'', msg = PStr ''Subresource not found'',
          description = PStr ''template does not exist''\<rparr>])),
      [base_params example_message]) \<and>
   send_msg other_code_backend [] example_message =
     (Inl (SparkPostAPIException
        [\<lparr>code = PStr ''1902'', msg = PStr ''Delivery failed'',
          description = PStr ''transmission rejected''\<rparr>]),
      [base_params example_message])"
proof -
  have b: "build_params example_message = Inr (base_params example_message)"
    by (simp add: example_message_def build_params_def check_unsupported_def
        check_attachments_def apply_sparkpost_cfg_def getattr_or_empty_def)
  have c1: "client template_missing_backend [] (base_params example_message) =
      Inl (SparkPostAPIException
        [\<lparr>code = PStr ''1603'', msg = PStr ''Subresource not found'',
          description = PStr ''template does not exist''\<rparr>])"
    by (simp add: template_missing_backend_def template_missing_client_def)
  have c2: "client other_code_backend [] (base_params example_message) =
      Inl (SparkPostAPIException
        [\<lparr>code = PStr ''1902'', msg = PStr ''Delivery failed'',
          description = PStr ''transmission rejected''\<rparr>])"
    by (simp add: other_code_backend_def other_code_client_def)
  show ?thesis
    using stored_template_error [OF b c1] stored_template_error [OF b c2] by simp
qed

subsection \<open>Batches\<close>



text \<open>
  C2: with fail-silently enabled, \<^verbatim>\<open>send_messages\<close> returns the sum of the accepted
  counts in which a message whose \<^verbatim>\<open>_send\<close> raised counts zero, and every message of the
  batch has been processed: the log is the one that sending each message in turn leaves.
  With fail-silently disabled, when the messages before one succeed and that one raises,
  \<^verbatim>\<open>send_messages\<close> raises the same exception and the log is the one that message's own
  \<^verbatim>\<open>_send\<close> left: nothing is dispatched for the messages after it.
\<close>

theorem send_messages_errors:
  "(fail_silently self \<longrightarrow>
      send_messages self calls msgs =
        (Inr (sum_list (map accepted (fst (send_each self calls msgs)))),
         snd (send_each self calls msgs)) \<and>
      length (fst (send_each self calls msgs)) = length msgs \<and>
      (\<forall>e. accepted (Inl e) = 0))
   \<and> (\<not> fail_silently self \<longrightarrow> send_each self calls pre = (rs, calls1) \<longrightarrow>
      (\<forall>r \<in> set rs. \<not> isl r) \<longrightarrow> send_msg self calls1 m = (Inl e, calls2) \<longrightarrow>
      send_messages self calls (pre @ m # post) = (Inl e, calls2))"
proof (intro conjI impI)
  assume "fail_silently self"
  then show "send_messages self calls msgs =
        (Inr (sum_list (map accepted (fst (send_each self calls msgs)))),
         snd (send_each self calls msgs))"
    using send_loop_silent [of self msgs 0 calls] by (simp add: send_messages_def)
next
  show "length (fst (send_each self calls msgs)) = length msgs"
    by (rule length_send_each)
next
  show "\<forall>e. accepted (Inl e) = 0" by (simp add: accepted_def)
next
  assume "\<not> fail_silently self" "send_each self calls pre = (rs, calls1)"
    "\<forall>r \<in> set rs. \<not> isl r" "send_msg self calls1 m = (Inl e, calls2)"
  then show "send_messages self calls (pre @ m # post) = (Inl e, calls2)"
    unfolding send_messages_def by (rule send_loop_first_error)
qed

theorem send_messages_errors_witness:
  "fst (send_each silent_backend [] [example_message, example_message, example_message]) =
     [Inr \<lparr>total_accepted_recipients = 1, total_rejected_recipients = 0\<rparr>,
      Inl (OtherException ''i should be raised''),
      Inr \<lparr>total_accepted_recipients = 1, total_rejected_recipients = 0\<rparr>] \<and>
   send_messages silent_backend [] [example_message, example_message, example_message] =
     (Inr 2,
      [base_params example_message, base_params example_message,
       base_params example_message]) \<and>
   send_messages loud_backend [] ([example_message] @ example_message # [example_message]) =
     (Inl (OtherException ''i should be raised''),
      [base_params example_message, base_params example_message])"
proof -
  have b: "build_params example_message = Inr (base_params example_message)"
    by (simp add: example_message_def build_params_def check_unsupported_def
        check_attachments_def apply_sparkpost_cfg_def getattr_or_empty_def)
  have s: "send_each silent_backend [] [example_message, example_message, example_message] =
     ([Inr \<lparr>total_accepted_recipients = 1, total_rejected_recipients = 0\<rparr>,
       Inl (OtherException ''i should be raised''),
       Inr \<lparr>total_accepted_recipients = 1, total_rejected_recipients = 0\<rparr>],
      [base_params example_message, base_params example_message,
       base_params example_message])"
    by (simp add: send_msg_def b silent_backend_def second_call_raises_def)
  have f: "fail_silently silent_backend" "\<not> fail_silently loud_backend"
    by (simp_all add: silent_backend_def loud_backend_def)
  have pre: "send_each loud_backend [] [example_message] =
     ([Inr \<lparr>total_accepted_recipients = 1, total_rejected_recipients = 0\<rparr>],
      [base_params example_message])"
    by (simp add: send_msg_def b loud_backend_def second_call_raises_def)
  have m: "send_msg loud_backend [base_params example_message] example_message =
     (Inl (OtherException ''i should be raised''),
      [base_params example_message, base_params example_message])"
    by (simp add: send_msg_def b loud_backend_def second_call_raises_def)
  show ?thesis
    using send_messages_errors
      [of silent_backend "[]" "[example_message, example_message, example_message]"]
      send_messages_errors
      [where self = loud_backend and calls = "[]" and pre = "[example_message]"
         and rs = "[Inr \<lparr>total_accepted_recipients = 1, total_rejected_recipients = 0\<rparr>]"
         and ?calls1.0 = "[base_params example_message]" and m = example_message
         and e = "OtherException ''i should be raised''"
         and ?calls2.0 = "[base_params example_message, base_params example_message]"
         and post = "[example_message]"]
      f s pre m
    by (simp add: accepted_def)
qed

end
